theory Spec2Isabelle
  imports Complex_Main
begin

section \<open>Characters and strings\<close>

text \<open>
  Python strings are sequences of code points. The model uses HOL's \<open>string\<close>, whose
  characters are the code points 0 to 255 (Latin-1), and classifies them as Python 3 does on
  that range: \<open>str.isspace\<close> and the pattern \<open>\s\<close> agree there, \<open>\w\<close> is
  alphanumeric or underscore, and \<open>str.lower\<close> maps every upper-case letter to the code
  point 32 above it. Code points beyond 255 are outside the model.
\<close>

definition code :: "char \<Rightarrow> nat" where
  "code c = of_char c"

definition isspace :: "char \<Rightarrow> bool" where
  "isspace c = (code c \<in> {9, 10, 11, 12, 13, 28, 29, 30, 31, 32, 133, 160})"

definition isword :: "char \<Rightarrow> bool" where
  "isword c = (let n = code c in
     (48 \<le> n \<and> n \<le> 57) \<or> (65 \<le> n \<and> n \<le> 90) \<or> n = 95 \<or> (97 \<le> n \<and> n \<le> 122) \<or>
     n = 170 \<or> n = 178 \<or> n = 179 \<or> n = 181 \<or> n = 185 \<or> n = 186 \<or>
     (188 \<le> n \<and> n \<le> 190) \<or> (192 \<le> n \<and> n \<le> 214) \<or> (216 \<le> n \<and> n \<le> 246) \<or>
     (248 \<le> n \<and> n \<le> 255))"

definition isupper :: "char \<Rightarrow> bool" where
  "isupper c = (let n = code c in
     (65 \<le> n \<and> n \<le> 90) \<or> (192 \<le> n \<and> n \<le> 214) \<or> (216 \<le> n \<and> n \<le> 222))"

definition lower_char :: "char \<Rightarrow> char" where
  "lower_char c = (if isupper c then char_of (code c + 32) else c)"

text \<open>\<open>str.lower()\<close>.\<close>

definition lower :: "string \<Rightarrow> string" where
  "lower s = map lower_char s"

text \<open>\<open>str.strip()\<close> with no argument: white space is dropped at both ends.\<close>

definition strip :: "string \<Rightarrow> string" where
  "strip s = rev (dropWhile isspace (rev (dropWhile isspace s)))"

text \<open>\<open>re.sub(r'\s+', ' ', s)\<close>: every maximal run of white space becomes one space.\<close>

function sub_spaces :: "string \<Rightarrow> string" where
  "sub_spaces [] = []"
| "sub_spaces (c # cs) =
     (if isspace c then CHR '' '' # sub_spaces (dropWhile isspace cs)
      else c # sub_spaces cs)"
  by pat_completeness auto
termination
  by (relation "measure length") (auto simp: length_dropWhile_le less_Suc_eq_le)

text \<open>The character classes \<open>[.,!?;:]\<close>, \<open>[.!?]\<close> and \<open>[^\w\s.,!?;:]\<close>.\<close>

definition ispunct :: "char \<Rightarrow> bool" where
  "ispunct c = (c \<in> set ''.,!?;:'')"

definition issentence_end :: "char \<Rightarrow> bool" where
  "issentence_end c = (c \<in> set ''.!?'')"

definition isspecial :: "char \<Rightarrow> bool" where
  "isspecial c = (\<not> (isword c \<or> isspace c \<or> ispunct c))"

text \<open>\<open>re.sub(r'[^\w\s.,!?;:]', '', s)\<close>: every special character is deleted.\<close>

definition sub_special :: "string \<Rightarrow> string" where
  "sub_special s = filter (\<lambda>c. \<not> isspecial c) s"

text \<open>\<open>str.split()\<close> with no argument: the maximal runs of non-space characters.\<close>

function split :: "string \<Rightarrow> string list" where
  "split s =
     (case dropWhile isspace s of
        [] \<Rightarrow> []
      | c # cs \<Rightarrow> takeWhile (\<lambda>x. \<not> isspace x) (c # cs) # split (dropWhile (\<lambda>x. \<not> isspace x) cs))"
  by pat_completeness auto
termination
proof (relation "measure length")
  fix s :: string and c cs
  assume a: "dropWhile isspace s = c # cs"
  have "length (dropWhile (\<lambda>x. \<not> isspace x) cs) \<le> length cs"
    by (rule length_dropWhile_le)
  also have "length cs < length (dropWhile isspace s)"
    using a by simp
  also have "\<dots> \<le> length s"
    by (rule length_dropWhile_le)
  finally show "(dropWhile (\<lambda>x. \<not> isspace x) cs, s) \<in> measure length"
    by simp
qed simp

text \<open>
  \<open>re.split(p, s)\<close> for a pattern \<open>[...]+\<close> without groups: the pieces between the
  maximal runs of matching characters, empty pieces at the ends included.
\<close>

function re_split :: "(char \<Rightarrow> bool) \<Rightarrow> string \<Rightarrow> string list" where
  "re_split p s =
     (case dropWhile (\<lambda>x. \<not> p x) s of
        [] \<Rightarrow> [s]
      | c # cs \<Rightarrow> takeWhile (\<lambda>x. \<not> p x) s # re_split p (dropWhile p cs))"
  by pat_completeness auto
termination
proof (relation "measure (\<lambda>(p, s). length s)")
  fix p :: "char \<Rightarrow> bool" and s :: string and c cs
  assume a: "dropWhile (\<lambda>x. \<not> p x) s = c # cs"
  have "length (dropWhile p cs) \<le> length cs"
    by (rule length_dropWhile_le)
  also have "length cs < length (dropWhile (\<lambda>x. \<not> p x) s)"
    using a by simp
  also have "\<dots> \<le> length s"
    by (rule length_dropWhile_le)
  finally show "((p, dropWhile p cs), (p, s)) \<in> measure (\<lambda>(p, s). length s)"
    by simp
qed simp

section \<open>Text normaliser\<close>

definition preprocess_text :: "string \<Rightarrow> string" where
  "preprocess_text text = lower (sub_special (sub_spaces (strip text)))"

section \<open>Stylometric feature extractor\<close>

text \<open>
  A binary64 value is a real number in the model, and the one special value the extractor
  can produce, NaN, is kept apart. The arithmetic of the extractor and of the score fusion is
  exact; the cosine computation, where rounding decides whether a result stays below 1,
  rounds every operation.
\<close>

datatype npfloat = Float real | NaN

text \<open>\<open>np.mean\<close> of a list: NaN (with a warning, no exception) on the empty list.\<close>

definition np_mean :: "real list \<Rightarrow> npfloat" where
  "np_mean xs = (if xs = [] then NaN else Float (sum_list xs / real (length xs)))"

definition extract_features :: "string \<Rightarrow> npfloat list" where
  "extract_features text =
     (let word_count = length (split text);
          char_count = length text;
          sentence_count = length (re_split issentence_end text);
          avg_word_length = np_mean (map (\<lambda>word. real (length word)) (split text));
          unique_words = card (set (split text));
          vocabulary_richness =
            (if word_count > 0 then real unique_words / real word_count else 0);
          punctuation_count = length (filter ispunct text);
          punctuation_density =
            (if char_count > 0 then real punctuation_count / real char_count else 0)
      in [Float (real word_count), Float (real char_count), Float (real sentence_count),
          avg_word_length, Float vocabulary_richness, Float punctuation_density])"

section \<open>The library the detector is built on\<close>

text \<open>
  scikit-learn is not part of the repository. Its classifier (\<open>SVC\<close>) and its term-weighting
  vectoriser (\<open>TfidfVectorizer\<close>) are parameters of the model: \<open>'c\<close> is the state of a
  classifier object and \<open>'v\<close> the state of a vectoriser object (constructor arguments and
  whatever the last fit left behind). A call that raises returns \<open>Inl\<close>.
  \<open>fit_transform\<close> mutates the vectoriser, so it returns the new vectoriser as well.
\<close>

datatype error = ValueError | IndexError

type_synonym matrix = "real list list"

record ('c, 'v) sklearn =
  predict_proba :: "'c \<Rightarrow> npfloat list list \<Rightarrow> error + matrix"
  fit_transform :: "'v \<Rightarrow> string list \<Rightarrow> 'v \<times> (error + matrix)"
  fit :: "'c \<Rightarrow> npfloat list list \<Rightarrow> nat list \<Rightarrow> 'c"
  train_test_split ::
    "npfloat list list \<Rightarrow> nat list \<Rightarrow>
     npfloat list list \<times> npfloat list list \<times> nat list \<times> nat list"

subsection \<open>Binary64 arithmetic\<close>

text \<open>
  \<open>rint\<close> rounds a real number to the nearest integer, a tie going to the even one.
  \<open>fl\<close> rounds a real number to the nearest one with 53 significant bits, a tie going to
  the even significand: it is the result an IEEE 754 operation returns for the exact result
  \<open>x\<close>, as long as it neither overflows nor falls into the subnormal range.
\<close>

definition rint :: "real \<Rightarrow> int" where
  "rint y =
     (let f = \<lfloor>y\<rfloor>; r = y - of_int f
      in if r < 1 / 2 then f else if 1 / 2 < r then f + 1 else if even f then f else f + 1)"

definition pow2 :: "int \<Rightarrow> real" where
  "pow2 e = 2 powr of_int e"

definition fl :: "real \<Rightarrow> real" where
  "fl x =
     (if x = 0 then 0
      else (let e = \<lfloor>log 2 \<bar>x\<bar>\<rfloor>; q = pow2 (e - 52) in of_int (rint (x / q)) * q))"

subsection \<open>Cosine similarity and maximum\<close>

text \<open>
  \<open>sklearn.metrics.pairwise.cosine_similarity\<close> and \<open>np.max\<close> are small enough to be
  written out. \<open>cosine_similarity(X, Y)\<close> scales every row of both arguments to unit
  Euclidean length, a row of norm 0 being left as it is, and returns all the dot products;
  it raises on an argument without rows or without columns. It computes in binary64: the
  squares of a row are added up from left to right, then comes the square root, then the
  division of every entry, and the products of two rows are added up from left to right,
  each operation rounding its result.
\<close>

definition row_norm :: "real list \<Rightarrow> real" where
  "row_norm x = fl (sqrt (fold (\<lambda>v acc. fl (acc + fl (v * v))) x 0))"

definition normalize :: "real list \<Rightarrow> real list" where
  "normalize x =
     (let n = row_norm x; n' = (if n = 0 then 1 else n) in map (\<lambda>v. fl (v / n')) x)"

definition dot :: "real list \<Rightarrow> real list \<Rightarrow> real" where
  "dot x y = fold (\<lambda>(a, b) acc. fl (acc + fl (a * b))) (zip x y) 0"

definition cosine_similarity :: "matrix \<Rightarrow> matrix \<Rightarrow> error + matrix" where
  "cosine_similarity X Y =
     (if X = [] \<or> Y = [] \<or> hd X = [] \<or> hd Y = [] then Inl ValueError
      else Inr (map (\<lambda>x. map (\<lambda>y. dot (normalize x) (normalize y)) Y) X))"

definition np_max :: "matrix \<Rightarrow> error + real" where
  "np_max K = (case concat K of [] \<Rightarrow> Inl ValueError | v # vs \<Rightarrow> Inr (fold max vs v))"

definition getitem :: "'a list \<Rightarrow> nat \<Rightarrow> error + 'a" where
  "getitem xs i = (if i < length xs then Inr (xs ! i) else Inl IndexError)"

section \<open>The detector\<close>

record ('c, 'v) detector =
  model_path :: string
  vectorizer :: 'v
  svm_model :: 'c
  similarity_threshold :: real
  plagiarism_threshold :: real
  reference_texts :: "string list"

subsection \<open>Model store\<close>

text \<open>
  The pickled dictionary, and the files of the working directory as a map from paths to what
  was pickled there. Pickling is taken to be lossless and writing a file to succeed.
\<close>

record ('c, 'v) model_data =
  md_svm_model :: 'c
  md_vectorizer :: 'v
  md_reference_texts :: "string list"

type_synonym ('c, 'v) files = "string \<Rightarrow> ('c, 'v) model_data option"

definition save_model :: "('c, 'v) detector \<Rightarrow> ('c, 'v) files \<Rightarrow> ('c, 'v) files" where
  "save_model d fs =
     (let model_data = \<lparr>md_svm_model = svm_model d, md_vectorizer = vectorizer d,
                         md_reference_texts = reference_texts d\<rparr>
      in fs(model_path d \<mapsto> model_data))"

definition load_model :: "('c, 'v) detector \<Rightarrow> ('c, 'v) files \<Rightarrow> bool \<times> ('c, 'v) detector" where
  "load_model d fs =
     (case fs (model_path d) of
        None \<Rightarrow> (False, d)
      | Some model_data \<Rightarrow>
          (True, d\<lparr>svm_model := md_svm_model model_data,
                   vectorizer := md_vectorizer model_data,
                   reference_texts := md_reference_texts model_data\<rparr>))"

definition generate_training_data :: "string list \<times> nat list" where
  "generate_training_data =
     (let original_texts =
        [''Machine learning is a subset of artificial intelligence that focuses on algorithms.'',
         ''The importance of data preprocessing cannot be overstated in machine learning projects.'',
         ''Neural networks are inspired by the biological neural networks of animal brains.'',
         ''Deep learning has revolutionized computer vision and natural language processing.'',
         ''Support vector machines are effective for classification and regression tasks.'',
         ''Cross-validation is essential for evaluating machine learning model performance.'',
         ''Feature engineering plays a crucial role in the success of machine learning models.'',
         ''Overfitting occurs when a model learns the training data too well.'',
         ''Regularization techniques help prevent overfitting in machine learning models.'',
         ''Ensemble methods combine multiple models to improve prediction accuracy.''];
          plagiarized_texts =
        [''Machine learning is a part of artificial intelligence that concentrates on algorithms.'',
         ''The significance of data preprocessing cannot be understated in ML projects.'',
         ''Neural nets are inspired by the biological neural networks of animal minds.'',
         ''Deep learning has transformed computer vision and natural language processing.'',
         ''Support vector machines are useful for classification and regression problems.'',
         ''Cross validation is essential for evaluating machine learning model performance.'',
         ''Feature engineering has a crucial role in the success of ML models.'',
         ''Overfitting happens when a model learns the training data too well.'',
         ''Regularization methods help prevent overfitting in machine learning models.'',
         ''Ensemble techniques combine multiple models to improve prediction accuracy.'']
      in (original_texts @ plagiarized_texts,
          replicate (length original_texts) 0 @ replicate (length plagiarized_texts) 1))"

definition train_model ::
  "('c, 'v) sklearn \<Rightarrow> ('c, 'v) detector \<Rightarrow> ('c, 'v) files \<Rightarrow> ('c, 'v) detector \<times> ('c, 'v) files"
where
  "train_model L d fs =
     (let (texts, labels) = generate_training_data;
          features = map (\<lambda>text. extract_features (preprocess_text text)) texts;
          (X_train, X_test, y_train, y_test) = train_test_split L features labels;
          d1 = d\<lparr>svm_model := fit L (svm_model d) X_train y_train\<rparr>;
          d2 = d1\<lparr>reference_texts := map preprocess_text texts\<rparr>
      in (d2, save_model d2 fs))"

definition load_or_create_model ::
  "('c, 'v) sklearn \<Rightarrow> ('c, 'v) detector \<Rightarrow> ('c, 'v) files \<Rightarrow> ('c, 'v) detector \<times> ('c, 'v) files"
where
  "load_or_create_model L d fs =
     (case load_model d fs of
        (True, d') \<Rightarrow> (d', fs)
      | (False, d') \<Rightarrow> train_model L d' fs)"

definition add_reference_text ::
  "('c, 'v) detector \<Rightarrow> ('c, 'v) files \<Rightarrow> string \<Rightarrow> ('c, 'v) detector \<times> ('c, 'v) files"
where
  "add_reference_text d fs text =
     (let processed_text = preprocess_text text
      in if processed_text \<notin> set (reference_texts d)
         then (let d' = d\<lparr>reference_texts := reference_texts d @ [processed_text]\<rparr>
               in (d', save_model d' fs))
         else (d, fs))"

subsection \<open>Corpus similarity scorer\<close>

text \<open>
  The bare \<open>except\<close> turns every exception of the vectoriser, of the cosine computation and of
  \<open>np.max\<close> into the result 0.0. The slices \<open>m[-1:]\<close> and \<open>m[:-1]\<close> are the last row
  and all rows but the last.
\<close>

definition calculate_similarity_score ::
  "('c, 'v) sklearn \<Rightarrow> ('c, 'v) detector \<Rightarrow> string \<Rightarrow> real \<times> ('c, 'v) detector"
where
  "calculate_similarity_score L d text =
     (if reference_texts d = [] then (0, d)
      else
        (let processed_text = preprocess_text text;
             all_texts = reference_texts d @ [processed_text];
             (v', fitted) = fit_transform L (vectorizer d) all_texts;
             d' = d\<lparr>vectorizer := v'\<rparr>
         in case fitted of
              Inl e \<Rightarrow> (0, d')
            | Inr tfidf_matrix \<Rightarrow>
                (case cosine_similarity (drop (length tfidf_matrix - 1) tfidf_matrix)
                        (butlast tfidf_matrix) of
                   Inl e \<Rightarrow> (0, d')
                 | Inr similarities \<Rightarrow>
                     (case np_max similarities of
                        Inl e \<Rightarrow> (0, d')
                      | Inr max_similarity \<Rightarrow> (max_similarity, d')))))"

subsection \<open>Score fusion\<close>

text \<open>
  \<open>predict_proba([text_features])[0][1]\<close> under its bare \<open>except\<close>: a failing call
  and a failing index both give 0.0.
\<close>

definition svm_probability :: "('c, 'v) sklearn \<Rightarrow> ('c, 'v) detector \<Rightarrow> npfloat list \<Rightarrow> real" where
  "svm_probability L d text_features =
     (case predict_proba L (svm_model d) [text_features] of
        Inl e \<Rightarrow> 0
      | Inr proba \<Rightarrow>
          (case getitem proba 0 of
             Inl e \<Rightarrow> 0
           | Inr row \<Rightarrow> (case getitem row 1 of Inl e \<Rightarrow> 0 | Inr p \<Rightarrow> p)))"

definition detect_plagiarism ::
  "('c, 'v) sklearn \<Rightarrow> ('c, 'v) detector \<Rightarrow> string \<Rightarrow> real \<times> ('c, 'v) detector"
where
  "detect_plagiarism L d text =
     (if text = [] \<or> length (strip text) < 10 then (0, d)
      else
        (let processed_text = preprocess_text text;
             text_features = extract_features processed_text;
             p = svm_probability L d text_features;
             (similarity_score, d') = calculate_similarity_score L d text;
             final_score = (p * 0.6 + similarity_score * 0.4) * 100
         in (min final_score 100, d')))"

subsection \<open>Report builder\<close>

text \<open>
  \<open>round(x, 2)\<close> on the idealised reals: to the nearest multiple of \<open>10\<^sup>-\<^sup>n\<close>, a tie going
  to the even neighbour.
\<close>

definition py_round :: "real \<Rightarrow> nat \<Rightarrow> real" where
  "py_round x ndigits =
     (let y = x * 10 ^ ndigits; f = \<lfloor>y\<rfloor>; r = y - of_int f;
          n = (if r < 1 / 2 then f else if 1 / 2 < r then f + 1
               else if even f then f else f + 1)
      in of_int n / 10 ^ ndigits)"

definition get_recommendations :: "real \<Rightarrow> string list" where
  "get_recommendations score =
     (if score < 15 then
        [''Content appears to be original.'', ''Good academic integrity maintained.'']
      else if score < 30 then
        [''Some similarities detected with existing content.'',
         ''Review citations and references.'',
         ''Consider paraphrasing similar sections.'']
      else if score < 50 then
        [''Significant similarities found.'',
         ''Manual review recommended.'',
         ''Check for proper citations and quotations.'',
         ''Consider rewriting similar sections.'']
      else
        [''High plagiarism risk detected.'',
         ''Immediate manual review required.'',
         ''Substantial rewriting may be necessary.'',
         ''Verify all sources are properly cited.''])"

record report =
  plagiarism_score :: real
  similarity_score :: real
  risk_level :: string
  risk_color :: string
  word_count :: nat
  character_count :: nat
  unique_words :: nat
  recommendations :: "string list"
  timestamp :: string

text \<open>
  The report is the dictionary the source returns; \<open>now\<close> is the formatted reading of the
  clock. The local variables \<open>plagiarism_score\<close>, \<open>similarity_score\<close>, \<open>risk_level\<close> and
  \<open>risk_color\<close> of the source are \<open>score\<close>, \<open>similarity\<close>, \<open>level\<close> and \<open>color\<close> here.
\<close>

definition get_detailed_report ::
  "('c, 'v) sklearn \<Rightarrow> ('c, 'v) detector \<Rightarrow> string \<Rightarrow> string \<Rightarrow> report \<times> ('c, 'v) detector"
where
  "get_detailed_report L d now text =
     (let processed_text = preprocess_text text;
          (score, d1) = detect_plagiarism L d text;
          features = extract_features processed_text;
          (similarity, d2) = calculate_similarity_score L d1 text;
          (level, color) =
            (if score < 15 then (''Low'', ''green'')
             else if score < 30 then (''Medium'', ''yellow'')
             else if score < 50 then (''High'', ''orange'')
             else (''Very High'', ''red''));
          report = \<lparr>plagiarism_score = py_round score 2,
                    similarity_score = py_round (similarity * 100) 2,
                    risk_level = level,
                    risk_color = color,
                    word_count = length (split processed_text),
                    character_count = length processed_text,
                    unique_words = card (set (split processed_text)),
                    recommendations = get_recommendations score,
                    timestamp = now\<rparr>
      in (report, d2))"

section \<open>What the properties are stated with\<close>

subsection \<open>Contracts of the library\<close>


definition tfidf_ok :: "('c, 'v) sklearn \<Rightarrow> bool" where
  "tfidf_ok L =
     (\<forall>v texts v' m. fit_transform L v texts = (v', Inr m) \<longrightarrow>
        length m = length texts \<and> (\<forall>row \<in> set m. row \<noteq> [] \<and> (\<forall>x \<in> set row. 0 \<le> x)))"

definition refits :: "('c, 'v) sklearn \<Rightarrow> bool" where
  "refits L =
     (\<forall>v texts texts'.
        snd (fit_transform L (fst (fit_transform L v texts)) texts') =
        snd (fit_transform L v texts'))"

subsection \<open>Notions of the specification\<close>


definition cosine :: "real list \<Rightarrow> real list \<Rightarrow> real" where
  "cosine x y = dot (normalize x) (normalize y)"

definition risk_bucket :: "real \<Rightarrow> string" where
  "risk_bucket x =
     (if x < 15 then ''Low'' else if x < 30 then ''Medium''
      else if x < 50 then ''High'' else ''Very High'')"

definition risk_rank :: "string \<Rightarrow> nat" where
  "risk_rank l =
     (if l = ''Low'' then 0 else if l = ''Medium'' then 1 else if l = ''High'' then 2 else 3)"

text \<open>The calls that read the model without training it or adding a reference.\<close>

datatype call = Score string | Similarity string | Report string string

fun run_call :: "('c, 'v) sklearn \<Rightarrow> ('c, 'v) detector \<Rightarrow> call \<Rightarrow> ('c, 'v) detector" where
  "run_call L d (Score text) = snd (detect_plagiarism L d text)"
| "run_call L d (Similarity text) = snd (calculate_similarity_score L d text)"
| "run_call L d (Report now text) = snd (get_detailed_report L d now text)"

definition run_calls :: "('c, 'v) sklearn \<Rightarrow> ('c, 'v) detector \<Rightarrow> call list \<Rightarrow> ('c, 'v) detector" where
  "run_calls L d calls = fold (\<lambda>c d. run_call L d c) calls d"

text \<open>
  Two detectors agree when they hold the same classifier and the same corpus and their
  vectorisers produce the same matrices.
\<close>

definition agree :: "('c, 'v) sklearn \<Rightarrow> ('c, 'v) detector \<Rightarrow> ('c, 'v) detector \<Rightarrow> bool" where
  "agree L d d' =
     (svm_model d' = svm_model d \<and> reference_texts d' = reference_texts d \<and>
      (\<forall>texts. snd (fit_transform L (vectorizer d') texts) =
                snd (fit_transform L (vectorizer d) texts)))"

subsection \<open>A small instance\<close>

text \<open>
  A stand-in for the library on which the statements can be evaluated: the classifier
  rejects NaN and otherwise answers one half, the vectoriser counts the words \<open>fox\<close> and
  \<open>dog\<close>, refuses a corpus in which neither occurs, and counts its fits. Three detectors
  go with it: one with two references, one with none, and one whose reference has no word the
  vectoriser knows.
\<close>

definition toy_sklearn :: "(nat, nat) sklearn" where
  "toy_sklearn =
     \<lparr>predict_proba = (\<lambda>c X. if NaN \<in> set (concat X) then Inl ValueError
                              else Inr (map (\<lambda>row. [1 / 2, 1 / 2]) X)),
      fit_transform = (\<lambda>v texts.
        (Suc v,
         let m = map (\<lambda>t. [real (count_list (split t) ''fox''),
                            real (count_list (split t) ''dog'')]) texts
         in if \<forall>row \<in> set m. row = [0, 0] then Inl ValueError else Inr m)),
      fit = (\<lambda>c X y. Suc c),
      train_test_split = (\<lambda>X y. (take 16 X, drop 16 X, take 16 y, drop 16 y))\<rparr>"

definition toy_detector :: "(nat, nat) detector" where
  "toy_detector =
     \<lparr>model_path = ''plagiarism_model.pkl'', vectorizer = 0, svm_model = 0,
      similarity_threshold = 0.3, plagiarism_threshold = 30,
      reference_texts = [''the quick brown fox'', ''a lazy dog'']\<rparr>"

definition empty_detector :: "(nat, nat) detector" where
  "empty_detector = toy_detector\<lparr>reference_texts := []\<rparr>"

text \<open>
  A second stand-in, whose vectoriser gives every text two terms of equal weight. The
  weight is the binary64 number 0.7071067811865475, which is what dividing 1 by the square
  root of 2 gives in binary64.
\<close>

definition inv_sqrt2 :: real where
  "inv_sqrt2 = 6369051672525772 / 9007199254740992"

definition even_sklearn :: "(nat, nat) sklearn" where
  "even_sklearn =
     \<lparr>predict_proba = (\<lambda>c X. Inr (map (\<lambda>row. [1 / 2, 1 / 2]) X)),
      fit_transform = (\<lambda>v texts. (Suc v, Inr (map (\<lambda>t. [inv_sqrt2, inv_sqrt2]) texts))),
      fit = (\<lambda>c X y. Suc c),
      train_test_split = (\<lambda>X y. (take 16 X, drop 16 X, take 16 y, drop 16 y))\<rparr>"

definition cat_detector :: "(nat, nat) detector" where
  "cat_detector = toy_detector\<lparr>reference_texts := [''a lazy cat'']\<rparr>"

declare split.simps [simp del] re_split.simps [simp del]

section \<open>Binary64 rounding\<close>

lemma rint_near:
  assumes "\<bar>y - of_int m\<bar> < 1 / 2"
  shows "rint y = m"
proof (cases "of_int m \<le> y")
  case True
  then have "\<lfloor>y\<rfloor> = m" using assms by (simp add: floor_eq_iff abs_less_iff)
  then show ?thesis using assms True by (simp add: rint_def Let_def abs_less_iff)
next
  case False
  then have "\<lfloor>y\<rfloor> = m - 1" using assms by (simp add: floor_eq_iff abs_less_iff)
  then show ?thesis using assms False by (simp add: rint_def Let_def abs_less_iff)
qed

lemma rint_nonneg: "0 \<le> y \<Longrightarrow> 0 \<le> rint y"
  by (simp add: rint_def Let_def)

lemma pow2_pos: "0 < pow2 e"
  by (simp add: pow2_def)

lemma fl_0: "fl 0 = 0"
  by (simp add: fl_def)

lemma fl_nonneg:
  assumes "0 \<le> x"
  shows "0 \<le> fl x"
proof (cases "x = 0")
  case True
  then show ?thesis by (simp add: fl_def)
next
  case False
  define q where "q = pow2 (\<lfloor>log 2 \<bar>x\<bar>\<rfloor> - 52)"
  have q: "0 < q" unfolding q_def by (rule pow2_pos)
  then have "0 \<le> x / q" using assms by simp
  then have "0 \<le> rint (x / q)" by (rule rint_nonneg)
  then have "0 \<le> real_of_int (rint (x / q)) * q" using q by simp
  then show ?thesis using False by (simp add: fl_def Let_def q_def)
qed

text \<open>
  How a rounding is evaluated: between \<open>2\<^sup>e\<close> and \<open>2\<^sup>e\<^sup>+\<^sup>1\<close> the binary64 numbers are the
  multiples of \<open>2\<^sup>e\<^sup>-\<^sup>5\<^sup>2\<close>, and \<open>x\<close> goes to the multiple it is less than half a step
  away from.
\<close>

lemma fl_near:
  assumes "pow2 e \<le> \<bar>x\<bar>" and "\<bar>x\<bar> < pow2 (e + 1)"
    and "\<bar>x / pow2 (e - 52) - of_int m\<bar> < 1 / 2"
  shows "fl x = of_int m * pow2 (e - 52)"
proof -
  have pos: "0 < \<bar>x\<bar>" using assms(1) pow2_pos [of e] by linarith
  then have "\<lfloor>log 2 \<bar>x\<bar>\<rfloor> = e"
    using assms(1,2) by (simp add: floor_log_eq_powr_iff pow2_def)
  moreover have "x \<noteq> 0" using pos by auto
  ultimately show ?thesis
    using rint_near [OF assms(3)] by (simp add: fl_def Let_def)
qed

lemma pow2_neg: "pow2 (- int n) = 1 / 2 ^ n"
  by (simp add: pow2_def powr_minus powr_realpow divide_inverse)

lemma pow2_nat: "pow2 (int n) = 2 ^ n"
  by (simp add: pow2_def powr_realpow)

lemma pow2_numeral:
  "pow2 (- numeral k) = 1 / 2 ^ numeral k" "pow2 (numeral k) = 2 ^ numeral k"
  "pow2 0 = 1" "pow2 1 = 2" "pow2 (- 1) = 1 / 2"
  using pow2_neg [of "numeral k"] pow2_nat [of "numeral k"] pow2_nat [of 0] pow2_nat [of 1]
    pow2_neg [of 1]
  by simp_all

lemma fl_1: "fl 1 = 1"
  using fl_near [of 0 1 4503599627370496] by (simp add: pow2_numeral)

section \<open>Cosine similarity\<close>

text \<open>Rows without negative entries have a cosine that is not negative.\<close>

lemma sum_sq_nonneg: "0 \<le> acc \<Longrightarrow> 0 \<le> fold (\<lambda>v acc. fl (acc + fl (v * v))) x acc"
proof (induction x arbitrary: acc)
  case Nil
  then show ?case by simp
next
  case (Cons a x)
  have "0 \<le> fl (a * a)" by (rule fl_nonneg) simp
  then have "0 \<le> fl (acc + fl (a * a))" using Cons.prems by (intro fl_nonneg) simp
  then show ?case using Cons.IH by simp
qed

lemma row_norm_nonneg: "0 \<le> row_norm x"
  unfolding row_norm_def by (intro fl_nonneg real_sqrt_ge_zero sum_sq_nonneg) simp

lemma normalize_nonneg:
  assumes "\<forall>a \<in> set x. 0 \<le> a"
  shows "\<forall>a \<in> set (normalize x). 0 \<le> a"
proof -
  define n where "n = (if row_norm x = 0 then 1 else row_norm x)"
  have "0 < n" using row_norm_nonneg [of x] by (simp add: n_def)
  then have "0 \<le> fl (v / n)" if "v \<in> set x" for v
    using assms that by (intro fl_nonneg) simp
  then show ?thesis by (auto simp: normalize_def Let_def n_def)
qed

lemma products_nonneg:
  assumes "0 \<le> acc" and "\<forall>(a, b) \<in> set ps. 0 \<le> a \<and> 0 \<le> b"
  shows "0 \<le> fold (\<lambda>(a, b) acc. fl (acc + fl (a * b))) ps acc"
  using assms
proof (induction ps arbitrary: acc)
  case Nil
  then show ?case by simp
next
  case (Cons p ps)
  obtain a b where p: "p = (a, b)" by (cases p)
  have "0 \<le> a * b" using Cons.prems(2) p by simp
  then have "0 \<le> fl (a * b)" by (rule fl_nonneg)
  then have "0 \<le> fl (acc + fl (a * b))" using Cons.prems(1) by (intro fl_nonneg) simp
  then show ?case using Cons.IH Cons.prems(2) p by simp
qed

lemma dot_nonneg:
  assumes "\<forall>a \<in> set x. 0 \<le> a" and "\<forall>b \<in> set y. 0 \<le> b"
  shows "0 \<le> dot x y"
proof -
  have "\<forall>(a, b) \<in> set (zip x y). 0 \<le> a \<and> 0 \<le> b"
    using assms by (auto dest: set_zip_leftD set_zip_rightD)
  then show ?thesis unfolding dot_def by (intro products_nonneg) simp_all
qed

lemma cosine_ge_0:
  "\<forall>a \<in> set x. 0 \<le> a \<Longrightarrow> \<forall>b \<in> set y. 0 \<le> b \<Longrightarrow> 0 \<le> dot (normalize x) (normalize y)"
  by (intro dot_nonneg normalize_nonneg)

section \<open>Corpus similarity\<close>

lemma fold_max_in: "fold max vs (v::real) \<in> set (v # vs)"
  by (induction vs arbitrary: v) (auto simp: max_def)

lemma np_max_in:
  assumes "np_max K = Inr m"
  shows "m \<in> set (concat K)"
proof (cases "concat K")
  case Nil
  with assms show ?thesis by (simp add: np_max_def)
next
  case (Cons v vs)
  with assms have "m = fold max vs v" by (simp add: np_max_def)
  then have "m \<in> set (v # vs)" using fold_max_in [of vs v] by simp
  then show ?thesis by (simp only: Cons)
qed

lemma np_max_row:
  assumes "row \<noteq> []"
  shows "np_max [row] = Inr (Max (set row))"
proof (cases row)
  case Nil
  with assms show ?thesis by simp
next
  case (Cons v vs)
  have "Max (set (v # vs)) = fold max vs v" by (rule Max.set_eq_fold)
  then show ?thesis unfolding Cons by (simp add: np_max_def)
qed

lemma cosine_similarity_entries:
  assumes "cosine_similarity X Y = Inr K" and "m \<in> set (concat K)"
  shows "\<exists>x \<in> set X. \<exists>y \<in> set Y. m = dot (normalize x) (normalize y)"
proof -
  from assms(1) have "K = map (\<lambda>x. map (\<lambda>y. dot (normalize x) (normalize y)) Y) X"
    by (simp add: cosine_similarity_def split: if_splits)
  with assms(2) show ?thesis by auto
qed

text \<open>The similarity score is 0 or the cosine of two rows of the fitted matrix.\<close>

lemma similarity_value:
  "fst (calculate_similarity_score L d text) = 0 \<or>
   (\<exists>v' m x y.
      fit_transform L (vectorizer d) (reference_texts d @ [preprocess_text text]) = (v', Inr m) \<and>
      x \<in> set m \<and> y \<in> set m \<and>
      fst (calculate_similarity_score L d text) = dot (normalize x) (normalize y))"
proof (cases "reference_texts d = []")
  case True
  then show ?thesis by (simp add: calculate_similarity_score_def)
next
  case False
  obtain v' r where ft:
    "fit_transform L (vectorizer d) (reference_texts d @ [preprocess_text text]) = (v', r)"
    by (cases "fit_transform L (vectorizer d) (reference_texts d @ [preprocess_text text])")
  show ?thesis
  proof (cases r)
    case (Inl e)
    then show ?thesis using False ft by (simp add: calculate_similarity_score_def)
  next
    case (Inr m)
    let ?X = "drop (length m - 1) m" and ?Y = "butlast m"
    show ?thesis
    proof (cases "cosine_similarity ?X ?Y")
      case (Inl e)
      then show ?thesis using False ft Inr by (simp add: calculate_similarity_score_def)
    next
      case K: (Inr K)
      show ?thesis
      proof (cases "np_max K")
        case (Inl e)
        then show ?thesis using False ft Inr K by (simp add: calculate_similarity_score_def)
      next
        case mx: (Inr mx)
        have val: "fst (calculate_similarity_score L d text) = mx"
          using False ft Inr K mx by (simp add: calculate_similarity_score_def)
        from np_max_in [OF mx] cosine_similarity_entries [OF K]
        obtain x y where "x \<in> set ?X" "y \<in> set ?Y" "mx = dot (normalize x) (normalize y)"
          by blast
        moreover have "set ?X \<subseteq> set m" by (rule set_drop_subset)
        moreover have "set ?Y \<subseteq> set m" by (auto dest: in_set_butlastD)
        ultimately show ?thesis using ft Inr val by blast
      qed
    qed
  qed
qed

lemma similarity_ge_0:
  assumes "tfidf_ok L"
  shows "0 \<le> fst (calculate_similarity_score L d text)"
proof -
  from similarity_value [of L d "text"] show ?thesis
  proof
    assume "fst (calculate_similarity_score L d text) = 0"
    then show ?thesis by simp
  next
    assume "\<exists>v' m x y.
      fit_transform L (vectorizer d) (reference_texts d @ [preprocess_text text]) = (v', Inr m) \<and>
      x \<in> set m \<and> y \<in> set m \<and>
      fst (calculate_similarity_score L d text) = dot (normalize x) (normalize y)"
    then obtain v' m x y where
      ft: "fit_transform L (vectorizer d) (reference_texts d @ [preprocess_text text]) = (v', Inr m)"
      and x: "x \<in> set m" and y: "y \<in> set m"
      and val: "fst (calculate_similarity_score L d text) = dot (normalize x) (normalize y)"
      by blast
    from assms ft have "\<forall>row \<in> set m. \<forall>a \<in> set row. 0 \<le> a"
      unfolding tfidf_ok_def by blast
    with x y have "0 \<le> dot (normalize x) (normalize y)"
      by (intro cosine_ge_0) auto
    with val show ?thesis by simp
  qed
qed

lemma similarity_empty_corpus:
  "reference_texts d = [] \<Longrightarrow> calculate_similarity_score L d text = (0, d)"
  by (simp add: calculate_similarity_score_def)

lemma similarity_fit_fails:
  "reference_texts d \<noteq> [] \<Longrightarrow>
   fit_transform L (vectorizer d) (reference_texts d @ [preprocess_text text]) = (v', Inl e) \<Longrightarrow>
   calculate_similarity_score L d text = (0, d\<lparr>vectorizer := v'\<rparr>)"
  by (simp add: calculate_similarity_score_def)

lemma similarity_max_cosine:
  assumes refs: "reference_texts d \<noteq> []"
    and ft: "fit_transform L (vectorizer d) (reference_texts d @ [preprocess_text text]) = (v', Inr m)"
    and len: "length m = length (reference_texts d) + 1"
    and cols: "\<forall>row \<in> set m. row \<noteq> []"
  shows "calculate_similarity_score L d text =
           (Max ((\<lambda>r. cosine (last m) r) ` set (butlast m)), d\<lparr>vectorizer := v'\<rparr>)"
proof -
  have m: "m \<noteq> []" using len by auto
  have b: "butlast m \<noteq> []" using len refs by (cases m rule: rev_cases) auto
  have X: "drop (length m - 1) m = [last m]"
    using m by (cases m rule: rev_cases) auto
  have "last m \<in> set m" using m by simp
  then have l: "last m \<noteq> []" using cols by blast
  have "hd (butlast m) \<in> set m" using b by (meson hd_in_set in_set_butlastD)
  then have h: "hd (butlast m) \<noteq> []" using cols by blast
  have K: "cosine_similarity [last m] (butlast m) = Inr [map (\<lambda>r. cosine (last m) r) (butlast m)]"
    using b l h by (simp add: cosine_similarity_def cosine_def)
  have "np_max [map (\<lambda>r. cosine (last m) r) (butlast m)] =
          Inr (Max (set (map (\<lambda>r. cosine (last m) r) (butlast m))))"
    using b by (intro np_max_row) simp
  then show ?thesis
    using refs ft X K by (simp add: calculate_similarity_score_def)
qed


section \<open>Score fusion and report\<close>




lemma svm_probability_fails:
  "predict_proba L (svm_model d) [f] = Inl e \<Longrightarrow> svm_probability L d f = 0"
  by (simp add: svm_probability_def)

lemma detect_short:
  "text = [] \<or> length (strip text) < 10 \<Longrightarrow> detect_plagiarism L d text = (0, d)"
  by (auto simp: detect_plagiarism_def)

lemma detect_long:
  "\<not> (text = [] \<or> length (strip text) < 10) \<Longrightarrow>
   detect_plagiarism L d text =
     (min ((svm_probability L d (extract_features (preprocess_text text)) * 0.6 +
            fst (calculate_similarity_score L d text) * 0.4) * 100) 100,
      snd (calculate_similarity_score L d text))"
  by (simp add: detect_plagiarism_def Let_def split_beta)



lemma report_fields:
  "fst (get_detailed_report L d now text) =
     \<lparr>plagiarism_score = py_round (fst (detect_plagiarism L d text)) 2,
      similarity_score =
        py_round (fst (calculate_similarity_score L (snd (detect_plagiarism L d text)) text) * 100) 2,
      risk_level = risk_bucket (fst (detect_plagiarism L d text)),
      risk_color =
        (let s = fst (detect_plagiarism L d text)
         in if s < 15 then ''green'' else if s < 30 then ''yellow''
            else if s < 50 then ''orange'' else ''red''),
      word_count = length (split (preprocess_text text)),
      character_count = length (preprocess_text text),
      unique_words = card (set (split (preprocess_text text))),
      recommendations = get_recommendations (fst (detect_plagiarism L d text)),
      timestamp = now\<rparr>"
  by (simp add: get_detailed_report_def Let_def split_beta risk_bucket_def)

lemma report_state:
  "snd (get_detailed_report L d now text) =
     snd (calculate_similarity_score L (snd (detect_plagiarism L d text)) text)"
  by (simp add: get_detailed_report_def Let_def split_beta)

lemma risk_bucket_mono: "x \<le> y \<Longrightarrow> risk_rank (risk_bucket x) \<le> risk_rank (risk_bucket y)"
  by (simp add: risk_bucket_def risk_rank_def)

lemma py_round_0: "py_round 0 n = 0"
  by (simp add: py_round_def)


section \<open>Normalising a text of special characters\<close>

lemma special_not_space: "isspecial c \<Longrightarrow> \<not> isspace c"
  by (simp add: isspecial_def)

lemma dropWhile_none: "\<forall>c \<in> set s. \<not> p c \<Longrightarrow> dropWhile p s = s"
  by (cases s) simp_all

lemma strip_no_space: "\<forall>c \<in> set s. \<not> isspace c \<Longrightarrow> strip s = s"
  by (simp add: strip_def dropWhile_none)

lemma sub_spaces_no_space: "\<forall>c \<in> set s. \<not> isspace c \<Longrightarrow> sub_spaces s = s"
  by (induction s) simp_all

lemma preprocess_all_special:
  assumes "\<forall>c \<in> set text. isspecial c"
  shows "preprocess_text text = []"
proof -
  have ns: "\<forall>c \<in> set text. \<not> isspace c"
    using assms special_not_space by blast
  have "sub_special text = []"
    using assms by (simp add: sub_special_def)
  then show ?thesis
    by (simp add: preprocess_text_def strip_no_space [OF ns] sub_spaces_no_space [OF ns] lower_def)
qed

lemma split_Nil: "split [] = []"
  by (simp add: split.simps)

section \<open>Calls that only read the model\<close>

lemma similarity_state:
  "snd (calculate_similarity_score L d text) = d \<or>
   snd (calculate_similarity_score L d text) =
     d\<lparr>vectorizer :=
         fst (fit_transform L (vectorizer d) (reference_texts d @ [preprocess_text text]))\<rparr>"
  by (auto simp: calculate_similarity_score_def Let_def split_beta split: sum.splits)

lemma similarity_keeps_corpus:
  "reference_texts (snd (calculate_similarity_score L d text)) = reference_texts d
   \<and> svm_model (snd (calculate_similarity_score L d text)) = svm_model d
   \<and> model_path (snd (calculate_similarity_score L d text)) = model_path d"
  using similarity_state [of L d "text"] by auto

lemma detect_keeps_corpus:
  "reference_texts (snd (detect_plagiarism L d text)) = reference_texts d
   \<and> svm_model (snd (detect_plagiarism L d text)) = svm_model d
   \<and> model_path (snd (detect_plagiarism L d text)) = model_path d"
  by (cases "text = [] \<or> length (strip text) < 10")
     (simp_all add: detect_short detect_long similarity_keeps_corpus)

lemma report_keeps_corpus:
  "reference_texts (snd (get_detailed_report L d now text)) = reference_texts d
   \<and> svm_model (snd (get_detailed_report L d now text)) = svm_model d
   \<and> model_path (snd (get_detailed_report L d now text)) = model_path d"
  by (simp add: report_state similarity_keeps_corpus detect_keeps_corpus)


lemma agree_refl: "agree L d d"
  by (simp add: agree_def)

lemma agree_trans: "agree L d d1 \<Longrightarrow> agree L d1 d2 \<Longrightarrow> agree L d d2"
  by (simp add: agree_def)

lemma similarity_agree_state:
  assumes "refits L"
  shows "agree L d (snd (calculate_similarity_score L d text))"
  using similarity_state [of L d "text"] assms
  by (auto simp: agree_def refits_def)

lemma similarity_agree_value:
  assumes "agree L d d'"
  shows "fst (calculate_similarity_score L d text) = fst (calculate_similarity_score L d' text)"
proof -
  have r: "reference_texts d' = reference_texts d"
    using assms by (simp add: agree_def)
  have "snd (fit_transform L (vectorizer d) (reference_texts d @ [preprocess_text text])) =
        snd (fit_transform L (vectorizer d') (reference_texts d @ [preprocess_text text]))"
    using assms by (simp add: agree_def)
  then show ?thesis
    by (simp add: calculate_similarity_score_def Let_def split_beta r split: sum.splits)
qed

lemma svm_probability_agree:
  "agree L d d' \<Longrightarrow> svm_probability L d f = svm_probability L d' f"
  by (simp add: svm_probability_def agree_def)

lemma detect_agree_value:
  assumes "agree L d d'"
  shows "fst (detect_plagiarism L d text) = fst (detect_plagiarism L d' text)"
proof (cases "text = [] \<or> length (strip text) < 10")
  case True
  then show ?thesis by (simp add: detect_short)
next
  case False
  then show ?thesis
    using similarity_agree_value [OF assms] svm_probability_agree [OF assms]
    by (simp add: detect_long)
qed

lemma detect_agree_state:
  assumes "refits L"
  shows "agree L d (snd (detect_plagiarism L d text))"
proof (cases "text = [] \<or> length (strip text) < 10")
  case True
  then show ?thesis by (simp add: detect_short agree_refl)
next
  case False
  then show ?thesis
    using similarity_agree_state [OF assms] by (simp add: detect_long)
qed

lemma report_agree_state:
  assumes "refits L"
  shows "agree L d (snd (get_detailed_report L d now text))"
  unfolding report_state
  using agree_trans [OF detect_agree_state [OF assms] similarity_agree_state [OF assms]] .

lemma run_call_agree:
  assumes "refits L"
  shows "agree L d (run_call L d c)"
  using assms
  by (cases c) (simp_all add: detect_agree_state similarity_agree_state report_agree_state)

lemma run_calls_agree:
  assumes "refits L"
  shows "agree L d (run_calls L d calls)"
  unfolding run_calls_def
proof (induction calls arbitrary: d)
  case Nil
  then show ?case by (simp add: agree_refl)
next
  case (Cons c calls)
  have "agree L d (run_call L d c)" by (rule run_call_agree [OF assms])
  moreover have "agree L (run_call L d c) (fold (\<lambda>c d. run_call L d c) calls (run_call L d c))"
    by (rule Cons.IH)
  ultimately show ?case using agree_trans by fastforce
qed


section \<open>The small instance, evaluated\<close>


lemma toy_tfidf: "tfidf_ok toy_sklearn"
  by (auto simp: tfidf_ok_def toy_sklearn_def Let_def split: if_splits)

lemma toy_refits: "refits toy_sklearn"
  by (simp add: refits_def toy_sklearn_def)

lemma fox_long:
  "\<not> (''The   Quick (brown) fox jumps'' = [] \<or> length (strip ''The   Quick (brown) fox jumps'') < 10)"
  by code_simp

lemma fox_processed:
  "preprocess_text ''The   Quick (brown) fox jumps'' = ''the quick brown fox jumps''"
  by code_simp

lemma fox_split:
  "split ''the quick brown fox jumps'' = [''the'', ''quick'', ''brown'', ''fox'', ''jumps'']"
  by code_simp

lemma fox_sentences:
  "re_split issentence_end ''the quick brown fox jumps'' = [''the quick brown fox jumps'']"
  by code_simp

lemma fox_punct: "filter ispunct ''the quick brown fox jumps'' = []"
  by code_simp

lemma fox_features:
  "extract_features ''the quick brown fox jumps'' =
     [Float 5, Float 25, Float 1, Float (21 / 5), Float 1, Float 0]"
  unfolding extract_features_def fox_split fox_sentences fox_punct by (simp add: np_mean_def)

lemma toy_counts:
  "count_list (split ''the quick brown fox'') ''fox'' = 1 \<and>
   count_list (split ''the quick brown fox'') ''dog'' = 0 \<and>
   count_list (split ''a lazy dog'') ''fox'' = 0 \<and>
   count_list (split ''a lazy dog'') ''dog'' = 1 \<and>
   count_list (split ''the quick brown fox jumps'') ''fox'' = 1 \<and>
   count_list (split ''the quick brown fox jumps'') ''dog'' = 0 \<and>
   count_list (split ''a lazy cat'') ''fox'' = 0 \<and>
   count_list (split ''a lazy cat'') ''dog'' = 0"
  by code_simp

lemma fox_matrix:
  "fit_transform toy_sklearn v
     [''the quick brown fox'', ''a lazy dog'', ''the quick brown fox jumps''] =
   (Suc v, Inr [[1, 0], [0, 1], [1, 0]])"
  unfolding toy_sklearn_def by (simp add: toy_counts)

lemma fox_similarity:
  "calculate_similarity_score toy_sklearn toy_detector ''The   Quick (brown) fox jumps'' =
     (1, toy_detector\<lparr>vectorizer := 1\<rparr>)"
  unfolding calculate_similarity_score_def toy_detector_def fox_processed
  by (simp add: fox_matrix cosine_similarity_def np_max_def normalize_def row_norm_def dot_def
      fl_0 fl_1)

lemma toy_probability:
  "NaN \<notin> set f \<Longrightarrow> svm_probability toy_sklearn d f = 1 / 2"
  by (simp add: svm_probability_def toy_sklearn_def getitem_def)

lemma fox_score:
  "detect_plagiarism toy_sklearn toy_detector ''The   Quick (brown) fox jumps'' =
     (70, toy_detector\<lparr>vectorizer := 1\<rparr>)"
  using fox_long by (simp add: detect_long fox_processed fox_features fox_similarity toy_probability)

lemma fox_score_empty:
  "detect_plagiarism toy_sklearn empty_detector ''The   Quick (brown) fox jumps'' =
     (30, empty_detector)"
  using fox_long
  by (simp add: detect_long fox_processed fox_features toy_probability
      similarity_empty_corpus empty_detector_def)

lemma short_short: "length (strip ''short'') < 10"
  by code_simp

lemma signs_long: "\<not> (''@@@@@@@@@@@@'' = [] \<or> length (strip ''@@@@@@@@@@@@'') < 10)"
  by code_simp

lemma signs_special: "\<forall>c \<in> set ''@@@@@@@@@@@@''. isspecial c"
  by code_simp

lemma signs_processed: "preprocess_text ''@@@@@@@@@@@@'' = []"
  by (rule preprocess_all_special [OF signs_special])

lemma empty_sentences: "re_split issentence_end [] = [[]]"
  by (simp add: re_split.simps)

lemma empty_features:
  "extract_features [] = [Float 0, Float 0, Float 1, NaN, Float 0, Float 0]"
  by (simp add: extract_features_def split_Nil empty_sentences np_mean_def)

lemma signs_matrix:
  "fit_transform toy_sklearn v [''a lazy cat'', []] = (Suc v, Inl ValueError)"
  unfolding toy_sklearn_def by (simp add: toy_counts split_Nil)


section \<open>A cosine above 1\<close>

text \<open>
  The row of two weights 0.7071067811865475, as the vectoriser's own normalisation leaves
  two equal counts, traced through the cosine computation: its norm is 0.9999999999999999,
  its normalised weights are 0.7071067811865476, and its dot product with itself is
  1.0000000000000002.
\<close>

lemma sqrt2_rounded: "fl (sqrt 2) = 6369051672525773 / 4503599627370496"
proof -
  define t :: real where "t = sqrt 2"
  have lo: "(12738103345051545 / 9007199254740992)\<^sup>2 < (2 :: real)"
    by (simp add: power2_eq_square)
  have hi: "(2 :: real) < (12738103345051547 / 9007199254740992)\<^sup>2"
    by (simp add: power2_eq_square)
  have l: "12738103345051545 / 9007199254740992 < t"
    unfolding t_def using lo by (intro real_less_rsqrt)
  have h: "t < 12738103345051547 / 9007199254740992"
    unfolding t_def using hi by (intro real_less_lsqrt) simp_all
  have p1: "pow2 0 \<le> \<bar>t\<bar>"
    using l by (simp add: pow2_numeral)
  have p2: "\<bar>t\<bar> < pow2 (0 + 1)"
    using l h by (simp add: pow2_numeral)
  have p3: "\<bar>t / pow2 (0 - 52) - of_int 6369051672525773\<bar> < 1 / 2"
    using l h by (simp add: pow2_numeral) argo
  have "fl t = of_int 6369051672525773 * pow2 (0 - 52)"
    by (rule fl_near [OF p1 p2 p3])
  then show ?thesis
    unfolding t_def by (simp add: pow2_numeral)
qed

lemma inv_sqrt2_rounded: "fl (1 / fl (sqrt 2)) = inv_sqrt2"
  unfolding sqrt2_rounded inv_sqrt2_def
  using fl_near [of "- 1" "1 / (6369051672525773 / 4503599627370496)" 6369051672525772]
  by (simp add: pow2_numeral)

lemma even_square:
  "fl (inv_sqrt2 * inv_sqrt2) = 9007199254740990 / 18014398509481984"
  unfolding inv_sqrt2_def
  using fl_near [of "- 2"
      "(6369051672525772 / 9007199254740992) * (6369051672525772 / 9007199254740992)"
      9007199254740990]
  by (simp add: pow2_numeral)

lemma even_square_first:
  "fl (0 + 9007199254740990 / 18014398509481984) = 9007199254740990 / 18014398509481984"
  using fl_near [of "- 2" "9007199254740990 / 18014398509481984" 9007199254740990]
  by (simp add: pow2_numeral)

lemma even_square_sum:
  "fl (9007199254740990 / 18014398509481984 + 9007199254740990 / 18014398509481984) =
     9007199254740990 / 9007199254740992"
  using fl_near [of "- 1"
      "9007199254740990 / 18014398509481984 + 9007199254740990 / 18014398509481984"
      9007199254740990]
  by (simp add: pow2_numeral)

lemma even_sqrt:
  "fl (sqrt (9007199254740990 / 9007199254740992)) = 9007199254740991 / 9007199254740992"
proof -
  define t :: real where "t = sqrt (9007199254740990 / 9007199254740992)"
  have lo: "(18014398509481981 / 18014398509481984)\<^sup>2 <
      (9007199254740990 / 9007199254740992 :: real)"
    by (simp add: power2_eq_square)
  have hi: "(9007199254740990 / 9007199254740992 :: real) <
      (18014398509481983 / 18014398509481984)\<^sup>2"
    by (simp add: power2_eq_square)
  have l: "18014398509481981 / 18014398509481984 < t"
    unfolding t_def using lo by (intro real_less_rsqrt)
  have h: "t < 18014398509481983 / 18014398509481984"
    unfolding t_def using hi by (intro real_less_lsqrt) simp_all
  have p1: "pow2 (- 1) \<le> \<bar>t\<bar>"
    using l by (simp add: pow2_numeral)
  have p2: "\<bar>t\<bar> < pow2 (- 1 + 1)"
    using l h by (simp add: pow2_numeral)
  have p3: "\<bar>t / pow2 (- 1 - 52) - of_int 9007199254740991\<bar> < 1 / 2"
    using l h by (simp add: pow2_numeral) argo
  have "fl t = of_int 9007199254740991 * pow2 (- 1 - 52)"
    by (rule fl_near [OF p1 p2 p3])
  then show ?thesis
    unfolding t_def by (simp add: pow2_numeral)
qed

lemma even_quotient:
  "fl (inv_sqrt2 / (9007199254740991 / 9007199254740992)) =
     6369051672525773 / 9007199254740992"
  unfolding inv_sqrt2_def
  using fl_near [of "- 1"
      "(6369051672525772 / 9007199254740992) / (9007199254740991 / 9007199254740992)"
      6369051672525773]
  by (simp add: pow2_numeral)

lemma even_product:
  "fl ((6369051672525773 / 9007199254740992) * (6369051672525773 / 9007199254740992)) =
     4503599627370497 / 9007199254740992"
  using fl_near [of "- 1"
      "(6369051672525773 / 9007199254740992) * (6369051672525773 / 9007199254740992)"
      4503599627370497]
  by (simp add: pow2_numeral)

lemma even_product_first:
  "fl (0 + 4503599627370497 / 9007199254740992) = 4503599627370497 / 9007199254740992"
  using fl_near [of "- 1" "4503599627370497 / 9007199254740992" 4503599627370497]
  by (simp add: pow2_numeral)

lemma even_product_sum:
  "fl (4503599627370497 / 9007199254740992 + 4503599627370497 / 9007199254740992) =
     4503599627370497 / 4503599627370496"
  using fl_near [of 0
      "4503599627370497 / 9007199254740992 + 4503599627370497 / 9007199254740992"
      4503599627370497]
  by (simp add: pow2_numeral)

lemma even_norm: "row_norm [inv_sqrt2, inv_sqrt2] = 9007199254740991 / 9007199254740992"
  unfolding row_norm_def
  by (simp only: fold_simps even_square even_square_first even_square_sum even_sqrt)

lemma even_normalized:
  "normalize [inv_sqrt2, inv_sqrt2] =
     [6369051672525773 / 9007199254740992, 6369051672525773 / 9007199254740992]"
proof -
  have nz: "(9007199254740991 / 9007199254740992 = (0 :: real)) = False"
    by simp
  show ?thesis
    unfolding normalize_def even_norm Let_def
    by (simp only: nz if_False list.map even_quotient)
qed

lemma even_cosine:
  "dot (normalize [inv_sqrt2, inv_sqrt2]) (normalize [inv_sqrt2, inv_sqrt2]) =
     4503599627370497 / 4503599627370496"
  unfolding even_normalized dot_def
  by (simp only: zip_Cons_Cons zip_Nil fold_simps prod.case
      even_product even_product_first even_product_sum)

lemma even_tfidf: "tfidf_ok even_sklearn"
  by (auto simp: tfidf_ok_def even_sklearn_def inv_sqrt2_def)

lemma even_matrix:
  "fit_transform even_sklearn (vectorizer toy_detector)
     (reference_texts toy_detector @ [preprocess_text text]) =
   (1, Inr [[inv_sqrt2, inv_sqrt2], [inv_sqrt2, inv_sqrt2], [inv_sqrt2, inv_sqrt2]])"
  by (simp add: even_sklearn_def toy_detector_def)

lemma even_similarity:
  "fst (calculate_similarity_score even_sklearn toy_detector text) =
     4503599627370497 / 4503599627370496"
proof -
  have refs: "reference_texts toy_detector \<noteq> []"
    by (simp add: toy_detector_def)
  have "calculate_similarity_score even_sklearn toy_detector text =
      (Max ((\<lambda>r. cosine (last [[inv_sqrt2, inv_sqrt2], [inv_sqrt2, inv_sqrt2],
          [inv_sqrt2, inv_sqrt2]]) r) `
        set (butlast [[inv_sqrt2, inv_sqrt2], [inv_sqrt2, inv_sqrt2], [inv_sqrt2, inv_sqrt2]])),
       toy_detector\<lparr>vectorizer := 1\<rparr>)"
    by (rule similarity_max_cosine [OF refs even_matrix]) (simp_all add: toy_detector_def)
  then show ?thesis
    by (simp add: cosine_def even_cosine)
qed

lemma short_score: "detect_plagiarism L d ''short'' = (0, d)"
  using short_short by (simp add: detect_short)

section \<open>The claims\<close>

text \<open>
  C5. \<open>extract_features\<close> returns six features in the order word count, character count,
  sentence count, average word length, vocabulary richness, punctuation density. Without
  words the average word length is NaN and the vocabulary richness is 0; without characters
  the punctuation density is 0.
\<close>

theorem extract_features_order:
  "extract_features text =
     [Float (real (length (split text))),
      Float (real (length text)),
      Float (real (length (re_split issentence_end text))),
      np_mean (map (\<lambda>word. real (length word)) (split text)),
      Float (if 0 < length (split text)
             then real (card (set (split text))) / real (length (split text)) else 0),
      Float (if 0 < length text
             then real (length (filter ispunct text)) / real (length text) else 0)] \<and>
   (length (split text) = 0 \<longrightarrow>
      extract_features text ! 3 = NaN \<and> extract_features text ! 4 = Float 0) \<and>
   (length text = 0 \<longrightarrow> extract_features text ! 5 = Float 0)"
  by (simp add: extract_features_def Let_def np_mean_def)

theorem extract_features_order_witness:
  "length (split []) = 0 \<and> length ([] :: string) = 0 \<and>
   extract_features [] ! 3 = NaN \<and> extract_features [] ! 4 = Float 0 \<and>
   extract_features [] ! 5 = Float 0"
  using extract_features_order [of "[]"] by (simp add: split_Nil np_mean_def)

text \<open>
  C6. The normaliser collapses and trims white space before it deletes the special
  characters, so a deleted character between two spaces leaves a run of two spaces, and a
  deleted character at the start leaves a leading space.
\<close>

theorem preprocess_text_leaves_spaces:
  "preprocess_text ''a @ b'' = ''a  b'' \<and> preprocess_text ''@ a'' = '' a''"
  by code_simp

text \<open>
  C10. The word count, the character count and the number of unique words of a report are
  those of the normalised text; a text of special characters only has word count 0 and
  character count 0.
\<close>

theorem report_counts_normalized:
  "word_count (fst (get_detailed_report L d now text)) = length (split (preprocess_text text)) \<and>
   character_count (fst (get_detailed_report L d now text)) = length (preprocess_text text) \<and>
   unique_words (fst (get_detailed_report L d now text)) =
     card (set (split (preprocess_text text))) \<and>
   ((\<forall>c \<in> set text. isspecial c) \<longrightarrow>
      word_count (fst (get_detailed_report L d now text)) = 0 \<and>
      character_count (fst (get_detailed_report L d now text)) = 0)"
  by (simp add: report_fields preprocess_all_special split_Nil)

theorem report_counts_normalized_witness:
  "list_all isspecial ''@@@@@@@@@@@@'' \<and>
   word_count (fst (get_detailed_report toy_sklearn toy_detector ''now'' ''@@@@@@@@@@@@'')) = 0 \<and>
   character_count (fst (get_detailed_report toy_sklearn toy_detector ''now'' ''@@@@@@@@@@@@'')) = 0"
proof -
  have "list_all isspecial ''@@@@@@@@@@@@''"
    using signs_special by (simp only: list_all_iff)
  then show ?thesis
    using report_counts_normalized [of toy_sklearn toy_detector "''now''" "''@@@@@@@@@@@@''"]
      signs_special
    by blast
qed

text \<open>
  C3. The risk level of a report is the bucket of the fused score: Low below 15, Medium from
  15 to below 30, High from 30 to below 50, Very High from 50. For one classifier and corpus,
  a text with a score at least as high has a risk level at least as high.
\<close>

theorem risk_level_buckets:
  "risk_level (fst (get_detailed_report L d now text)) =
     risk_bucket (fst (detect_plagiarism L d text)) \<and>
   (\<forall>x. (0 \<le> x \<and> x < 15 \<longrightarrow> risk_bucket x = ''Low'') \<and>
        (15 \<le> x \<and> x < 30 \<longrightarrow> risk_bucket x = ''Medium'') \<and>
        (30 \<le> x \<and> x < 50 \<longrightarrow> risk_bucket x = ''High'') \<and>
        (50 \<le> x \<and> x \<le> 100 \<longrightarrow> risk_bucket x = ''Very High'')) \<and>
   (fst (detect_plagiarism L d text) \<le> fst (detect_plagiarism L d text') \<longrightarrow>
      risk_rank (risk_level (fst (get_detailed_report L d now text))) \<le>
      risk_rank (risk_level (fst (get_detailed_report L d now' text'))))"
  by (simp add: report_fields risk_bucket_mono) (simp add: risk_bucket_def)

theorem risk_level_buckets_witness:
  "fst (detect_plagiarism toy_sklearn toy_detector ''short'') \<le>
     fst (detect_plagiarism toy_sklearn toy_detector ''The   Quick (brown) fox jumps'') \<and>
   risk_level (fst (get_detailed_report toy_sklearn toy_detector ''now'' ''short'')) = ''Low'' \<and>
   risk_rank (risk_level (fst (get_detailed_report toy_sklearn toy_detector ''now'' ''short''))) \<le>
   risk_rank (risk_level (fst (get_detailed_report toy_sklearn toy_detector ''later''
     ''The   Quick (brown) fox jumps'')))"
proof -
  have le: "fst (detect_plagiarism toy_sklearn toy_detector ''short'') \<le>
     fst (detect_plagiarism toy_sklearn toy_detector ''The   Quick (brown) fox jumps'')"
    by (simp add: short_score fox_score)
  have low: "risk_bucket (fst (detect_plagiarism toy_sklearn toy_detector ''short'')) = ''Low''"
    by (simp add: short_score risk_bucket_def)
  note inst = risk_level_buckets [of toy_sklearn toy_detector "''now''" "''short''"
      "''The   Quick (brown) fox jumps''" "''later''"]
  from inst low
  have "risk_level (fst (get_detailed_report toy_sklearn toy_detector ''now'' ''short'')) = ''Low''"
    by (simp only:)
  moreover from inst le
  have "risk_rank (risk_level (fst (get_detailed_report toy_sklearn toy_detector ''now'' ''short''))) \<le>
    risk_rank (risk_level (fst (get_detailed_report toy_sklearn toy_detector ''later''
      ''The   Quick (brown) fox jumps'')))"
    by blast
  ultimately show ?thesis using le by blast
qed




text \<open>
  C4. The similarity score is not negative. It is 0 when the corpus is empty and when the
  vectoriser fails; otherwise it is the largest cosine, as binary64 arithmetic computes it,
  between the candidate's row, the last one of the matrix fitted on the corpus followed by
  the candidate, and a reference row.
\<close>

theorem similarity_nonneg_and_max:
  assumes "tfidf_ok L"
  shows "0 \<le> fst (calculate_similarity_score L d text) \<and>
    (reference_texts d = [] \<longrightarrow> fst (calculate_similarity_score L d text) = 0) \<and>
    (\<forall>v' e. fit_transform L (vectorizer d) (reference_texts d @ [preprocess_text text]) =
              (v', Inl e) \<longrightarrow>
       fst (calculate_similarity_score L d text) = 0) \<and>
    (\<forall>v' m. reference_texts d \<noteq> [] \<and>
            fit_transform L (vectorizer d) (reference_texts d @ [preprocess_text text]) =
              (v', Inr m) \<longrightarrow>
       fst (calculate_similarity_score L d text) =
         Max ((\<lambda>r. cosine (last m) r) ` set (butlast m)))"
proof -
  have fails: "fst (calculate_similarity_score L d text) = 0"
    if "fit_transform L (vectorizer d) (reference_texts d @ [preprocess_text text]) = (v', Inl e)"
    for v' e
    using that similarity_fit_fails [of d L "text" v' e] similarity_empty_corpus [of d L "text"]
    by (cases "reference_texts d = []") simp_all
  have mx: "fst (calculate_similarity_score L d text) =
         Max ((\<lambda>r. cosine (last m) r) ` set (butlast m))"
    if refs: "reference_texts d \<noteq> []"
      and ft: "fit_transform L (vectorizer d) (reference_texts d @ [preprocess_text text]) =
        (v', Inr m)"
    for v' m
  proof -
    from assms ft have "length m = length (reference_texts d) + 1" "\<forall>row \<in> set m. row \<noteq> []"
      unfolding tfidf_ok_def by fastforce+
    then show ?thesis
      using similarity_max_cosine [OF refs ft] by simp
  qed
  show ?thesis
    using similarity_ge_0 [OF assms] similarity_empty_corpus fails mx
    by (metis fst_conv)
qed

text \<open>
  C4 as it is stated, with 1 as an upper bound, fails for a candidate whose row equals a
  reference row: the row of two weights 0.7071067811865475 has the cosine
  1.0000000000000002 with itself.
\<close>

theorem similarity_above_one_counterexample:
  "tfidf_ok even_sklearn \<and>
   fst (calculate_similarity_score even_sklearn toy_detector ''the quick brown fox'') =
     4503599627370497 / 4503599627370496 \<and>
   1 < fst (calculate_similarity_score even_sklearn toy_detector ''the quick brown fox'')"
  by (simp add: even_tfidf even_similarity)

theorem similarity_nonneg_and_max_witness:
  "tfidf_ok toy_sklearn \<and>
   reference_texts toy_detector \<noteq> [] \<and>
   fit_transform toy_sklearn (vectorizer toy_detector)
     (reference_texts toy_detector @ [preprocess_text ''The   Quick (brown) fox jumps'']) =
     (1, Inr [[1, 0], [0, 1], [1, 0]]) \<and>
   fst (calculate_similarity_score toy_sklearn toy_detector ''The   Quick (brown) fox jumps'') =
     Max ((\<lambda>r. cosine (last [[1, 0], [0, 1], [1, 0]]) r) ` set (butlast [[1, 0], [0, 1], [1, 0]])) \<and>
   reference_texts empty_detector = [] \<and>
   fst (calculate_similarity_score toy_sklearn empty_detector ''The   Quick (brown) fox jumps'') = 0 \<and>
   fit_transform toy_sklearn (vectorizer cat_detector)
     (reference_texts cat_detector @ [preprocess_text ''@@@@@@@@@@@@'']) = (1, Inl ValueError) \<and>
   fst (calculate_similarity_score toy_sklearn cat_detector ''@@@@@@@@@@@@'') = 0"
proof -
  have refs: "reference_texts toy_detector \<noteq> []"
    by (simp add: toy_detector_def)
  have ft: "fit_transform toy_sklearn (vectorizer toy_detector)
     (reference_texts toy_detector @ [preprocess_text ''The   Quick (brown) fox jumps'']) =
     (1, Inr [[1, 0], [0, 1], [1, 0]])"
    unfolding fox_processed toy_detector_def by (simp add: fox_matrix)
  have none: "reference_texts empty_detector = []"
    by (simp add: empty_detector_def)
  have bad: "fit_transform toy_sklearn (vectorizer cat_detector)
     (reference_texts cat_detector @ [preprocess_text ''@@@@@@@@@@@@'']) = (1, Inl ValueError)"
    unfolding signs_processed cat_detector_def toy_detector_def by (simp add: signs_matrix)
  note a = similarity_nonneg_and_max [OF toy_tfidf, of toy_detector "''The   Quick (brown) fox jumps''"]
  note b = similarity_nonneg_and_max [OF toy_tfidf, of empty_detector "''The   Quick (brown) fox jumps''"]
  note c = similarity_nonneg_and_max [OF toy_tfidf, of cat_detector "''@@@@@@@@@@@@''"]
  have "fst (calculate_similarity_score toy_sklearn toy_detector ''The   Quick (brown) fox jumps'') =
     Max ((\<lambda>r. cosine (last [[1, 0], [0, 1], [1, 0]]) r) ` set (butlast [[1, 0], [0, 1], [1, 0]]))"
    using a refs ft by blast
  moreover have
    "fst (calculate_similarity_score toy_sklearn empty_detector ''The   Quick (brown) fox jumps'') = 0"
    using b none by blast
  moreover have "fst (calculate_similarity_score toy_sklearn cat_detector ''@@@@@@@@@@@@'') = 0"
    using c bad by blast
  ultimately show ?thesis
    using toy_tfidf refs ft none bad by blast
qed

text \<open>
  C7. \<open>add_reference_text\<close> appends the normalised text to the corpus and saves the model
  when the normalised text is not in the corpus yet, and changes neither the detector nor the
  files when it is. Scoring, the similarity computation and the report leave the corpus as it
  is, and loading the model the detector has saved gives the same corpus back.
\<close>

theorem add_reference_dedup:
  "(preprocess_text text \<notin> set (reference_texts d) \<longrightarrow>
      reference_texts (fst (add_reference_text d fs text)) =
        reference_texts d @ [preprocess_text text] \<and>
      snd (add_reference_text d fs text) =
        fs(model_path d \<mapsto>
          \<lparr>md_svm_model = svm_model d, md_vectorizer = vectorizer d,
           md_reference_texts = reference_texts d @ [preprocess_text text]\<rparr>)) \<and>
   (preprocess_text text \<in> set (reference_texts d) \<longrightarrow> add_reference_text d fs text = (d, fs)) \<and>
   reference_texts (run_call L d c) = reference_texts d \<and>
   reference_texts (snd (load_model d (save_model d fs))) = reference_texts d"
proof -
  have "reference_texts (run_call L d c) = reference_texts d"
    by (cases c) (simp_all add: detect_keeps_corpus similarity_keeps_corpus report_keeps_corpus)
  then show ?thesis
    by (simp add: add_reference_text_def save_model_def load_model_def Let_def)
qed

lemma fox_reference: "preprocess_text ''The Quick  Brown FOX'' = ''the quick brown fox''"
  by code_simp

lemma cat_reference: "preprocess_text ''A lazy cat!'' = ''a lazy cat!''"
  by code_simp

theorem add_reference_dedup_witness:
  "preprocess_text ''A lazy cat!'' \<notin> set (reference_texts toy_detector) \<and>
   reference_texts (fst (add_reference_text toy_detector Map.empty ''A lazy cat!'')) =
     [''the quick brown fox'', ''a lazy dog'', ''a lazy cat!''] \<and>
   snd (add_reference_text toy_detector Map.empty ''A lazy cat!'') ''plagiarism_model.pkl'' =
     Some \<lparr>md_svm_model = 0, md_vectorizer = 0,
           md_reference_texts = [''the quick brown fox'', ''a lazy dog'', ''a lazy cat!'']\<rparr> \<and>
   preprocess_text ''The Quick  Brown FOX'' \<in> set (reference_texts toy_detector) \<and>
   add_reference_text toy_detector Map.empty ''The Quick  Brown FOX'' = (toy_detector, Map.empty) \<and>
   reference_texts (run_call toy_sklearn toy_detector (Score ''The   Quick (brown) fox jumps'')) =
     reference_texts toy_detector"
proof -
  have new: "preprocess_text ''A lazy cat!'' \<notin> set (reference_texts toy_detector)"
    unfolding cat_reference by (simp add: toy_detector_def)
  have old: "preprocess_text ''The Quick  Brown FOX'' \<in> set (reference_texts toy_detector)"
    unfolding fox_reference by (simp add: toy_detector_def)
  note a = add_reference_dedup [of "''A lazy cat!''" toy_detector Map.empty toy_sklearn
      "Score ''The   Quick (brown) fox jumps''"]
  note b = add_reference_dedup [of "''The Quick  Brown FOX''" toy_detector Map.empty toy_sklearn
      "Score ''The   Quick (brown) fox jumps''"]
  from a new have
    "reference_texts (fst (add_reference_text toy_detector Map.empty ''A lazy cat!'')) =
       reference_texts toy_detector @ [preprocess_text ''A lazy cat!'']"
    "snd (add_reference_text toy_detector Map.empty ''A lazy cat!'') =
       Map.empty(model_path toy_detector \<mapsto>
          \<lparr>md_svm_model = svm_model toy_detector, md_vectorizer = vectorizer toy_detector,
           md_reference_texts = reference_texts toy_detector @ [preprocess_text ''A lazy cat!'']\<rparr>)"
    by blast+
  then have
    "reference_texts (fst (add_reference_text toy_detector Map.empty ''A lazy cat!'')) =
       [''the quick brown fox'', ''a lazy dog'', ''a lazy cat!'']"
    "snd (add_reference_text toy_detector Map.empty ''A lazy cat!'') ''plagiarism_model.pkl'' =
     Some \<lparr>md_svm_model = 0, md_vectorizer = 0,
           md_reference_texts = [''the quick brown fox'', ''a lazy dog'', ''a lazy cat!'']\<rparr>"
    unfolding cat_reference by (simp_all add: toy_detector_def)
  moreover from b old have
    "add_reference_text toy_detector Map.empty ''The Quick  Brown FOX'' = (toy_detector, Map.empty)"
    by blast
  ultimately show ?thesis using new old a by blast
qed

text \<open>
  C8. When the vectoriser fits afresh at every call, a score is the same before and after
  any number of calls that score, compare or report: the second of two calls on one text
  returns what the first returned.
\<close>

theorem score_repeatable:
  assumes "refits L"
  shows "fst (detect_plagiarism L (run_calls L (snd (detect_plagiarism L d text)) calls) text) =
    fst (detect_plagiarism L d text)"
proof -
  have "agree L d (snd (detect_plagiarism L d text))"
    by (rule detect_agree_state [OF assms])
  moreover have "agree L (snd (detect_plagiarism L d text))
      (run_calls L (snd (detect_plagiarism L d text)) calls)"
    by (rule run_calls_agree [OF assms])
  ultimately have "agree L d (run_calls L (snd (detect_plagiarism L d text)) calls)"
    by (rule agree_trans)
  then show ?thesis
    by (rule detect_agree_value [symmetric])
qed

theorem score_repeatable_witness:
  "refits toy_sklearn \<and>
   vectorizer (snd (detect_plagiarism toy_sklearn toy_detector ''The   Quick (brown) fox jumps'')) \<noteq>
     vectorizer toy_detector \<and>
   fst (detect_plagiarism toy_sklearn
     (run_calls toy_sklearn
        (snd (detect_plagiarism toy_sklearn toy_detector ''The   Quick (brown) fox jumps''))
        [Score ''short'', Report ''now'' ''@@@@@@@@@@@@''])
     ''The   Quick (brown) fox jumps'') =
   fst (detect_plagiarism toy_sklearn toy_detector ''The   Quick (brown) fox jumps'')"
proof -
  have "vectorizer (snd (detect_plagiarism toy_sklearn toy_detector
      ''The   Quick (brown) fox jumps'')) \<noteq> vectorizer toy_detector"
    unfolding fox_score by (simp add: toy_detector_def)
  then show ?thesis
    using toy_refits score_repeatable [OF toy_refits, of toy_detector
        "''The   Quick (brown) fox jumps''" "[Score ''short'', Report ''now'' ''@@@@@@@@@@@@'']"]
    by blast
qed

text \<open>
  C9. A detector that loads what another detector with the same model path has saved holds
  that detector's classifier, vectoriser and corpus, and scores every text as it does. This
  holds in particular for the model that training has just saved.
\<close>

theorem save_load_round_trip:
  assumes "model_path d0 = model_path d"
  shows "fst (load_model d0 (save_model d fs)) \<and>
    svm_model (snd (load_model d0 (save_model d fs))) = svm_model d \<and>
    vectorizer (snd (load_model d0 (save_model d fs))) = vectorizer d \<and>
    reference_texts (snd (load_model d0 (save_model d fs))) = reference_texts d \<and>
    fst (detect_plagiarism L (snd (load_model d0 (save_model d fs))) text) =
      fst (detect_plagiarism L d text) \<and>
    fst (detect_plagiarism L (snd (load_model d0 (snd (train_model L d fs)))) text) =
      fst (detect_plagiarism L (fst (train_model L d fs)) text)"
proof -
  have restored: "agree L e (snd (load_model d0 (save_model e fs)))"
    if "model_path d0 = model_path e" for e :: "('a, 'b) detector"
    using that by (simp add: load_model_def save_model_def agree_def)
  have trained: "snd (train_model L d fs) = save_model (fst (train_model L d fs)) fs"
    and path: "model_path (fst (train_model L d fs)) = model_path d"
    by (simp_all add: train_model_def Let_def split_beta)
  have "fst (detect_plagiarism L (snd (load_model d0 (save_model d fs))) text) =
      fst (detect_plagiarism L d text)"
    by (rule detect_agree_value [OF restored [OF assms], symmetric])
  moreover have
    "fst (detect_plagiarism L (snd (load_model d0 (snd (train_model L d fs)))) text) =
      fst (detect_plagiarism L (fst (train_model L d fs)) text)"
    unfolding trained
    by (rule detect_agree_value [OF restored, symmetric]) (simp add: path assms)
  ultimately show ?thesis
    using assms by (simp add: load_model_def save_model_def)
qed

theorem save_load_round_trip_witness:
  "model_path empty_detector = model_path toy_detector \<and>
   reference_texts (snd (load_model empty_detector (save_model toy_detector Map.empty))) =
     reference_texts toy_detector \<and>
   fst (detect_plagiarism toy_sklearn
     (snd (load_model empty_detector (save_model toy_detector Map.empty)))
     ''The   Quick (brown) fox jumps'') = 70"
proof -
  have p: "model_path empty_detector = model_path toy_detector"
    by (simp add: empty_detector_def)
  show ?thesis
    using p save_load_round_trip [OF p, of Map.empty toy_sklearn "''The   Quick (brown) fox jumps''"]
    by (simp add: fox_score)
qed


text \<open>
  C2. Scoring and reporting return a value for every text, the failures of the classifier
  and of the vectoriser being caught and counted as 0. An empty or near-empty text gets the
  score 0 and the risk level Low. With an empty corpus or a failing vectoriser the
  similarity is 0 and the score is 60 times the classifier's probability, capped at 100, so
  that the risk level is the one of the classifier's probability alone and need not be Low.
\<close>

theorem degenerate_inputs:
  "risk_level (fst (get_detailed_report L d now text)) \<in> {''Low'', ''Medium'', ''High'', ''Very High''} \<and>
   (text = [] \<or> length (strip text) < 10 \<longrightarrow>
      fst (detect_plagiarism L d text) = 0 \<and>
      plagiarism_score (fst (get_detailed_report L d now text)) = 0 \<and>
      risk_level (fst (get_detailed_report L d now text)) = ''Low'') \<and>
   (reference_texts d = [] \<longrightarrow> fst (calculate_similarity_score L d text) = 0) \<and>
   (\<forall>v' e. fit_transform L (vectorizer d) (reference_texts d @ [preprocess_text text]) =
             (v', Inl e) \<longrightarrow>
      fst (calculate_similarity_score L d text) = 0) \<and>
   (\<forall>e. predict_proba L (svm_model d) [extract_features (preprocess_text text)] = Inl e \<longrightarrow>
      svm_probability L d (extract_features (preprocess_text text)) = 0) \<and>
   (\<not> (text = [] \<or> length (strip text) < 10) \<and> fst (calculate_similarity_score L d text) = 0 \<longrightarrow>
      fst (detect_plagiarism L d text) =
        min (60 * svm_probability L d (extract_features (preprocess_text text))) 100)"
proof -
  have level: "risk_level (fst (get_detailed_report L d now text)) \<in>
      {''Low'', ''Medium'', ''High'', ''Very High''}"
    by (simp add: report_fields risk_bucket_def)
  have short: "fst (detect_plagiarism L d text) = 0 \<and>
      plagiarism_score (fst (get_detailed_report L d now text)) = 0 \<and>
      risk_level (fst (get_detailed_report L d now text)) = ''Low''"
    if "text = [] \<or> length (strip text) < 10"
    using detect_short [OF that, of L d]
    by (simp add: report_fields py_round_0 risk_bucket_def)
  have fails: "fst (calculate_similarity_score L d text) = 0"
    if "fit_transform L (vectorizer d) (reference_texts d @ [preprocess_text text]) = (v', Inl e)"
    for v' e
    using that similarity_fit_fails [of d L "text" v' e] similarity_empty_corpus [of d L "text"]
    by (cases "reference_texts d = []") simp_all
  have long: "fst (detect_plagiarism L d text) =
        min (60 * svm_probability L d (extract_features (preprocess_text text))) 100"
    if "\<not> (text = [] \<or> length (strip text) < 10)" "fst (calculate_similarity_score L d text) = 0"
    using that by (simp add: detect_long)
  show ?thesis
    using level short fails long similarity_empty_corpus [of d L "text"] svm_probability_fails
    by (metis fst_conv)
qed

text \<open>
  C2 as it is stated, with the risk level Low for every degenerate input, fails for the
  empty corpus: with a classifier that answers one half, a text of five words scores 30 and
  its risk level is High.
\<close>

theorem degenerate_empty_corpus_counterexample:
  "reference_texts empty_detector = [] \<and>
   fst (detect_plagiarism toy_sklearn empty_detector ''The   Quick (brown) fox jumps'') = 30 \<and>
   risk_level (fst (get_detailed_report toy_sklearn empty_detector ''now''
     ''The   Quick (brown) fox jumps'')) = ''High''"
  by (simp add: report_fields fox_score_empty risk_bucket_def) (simp add: empty_detector_def)

lemma signs_classifier:
  "predict_proba toy_sklearn (svm_model cat_detector)
     [extract_features (preprocess_text ''@@@@@@@@@@@@'')] = Inl ValueError"
  unfolding signs_processed empty_features by (simp add: toy_sklearn_def)

lemma signs_vectorizer:
  "fit_transform toy_sklearn (vectorizer cat_detector)
     (reference_texts cat_detector @ [preprocess_text ''@@@@@@@@@@@@'']) = (1, Inl ValueError)"
  unfolding signs_processed cat_detector_def toy_detector_def by (simp add: signs_matrix)

theorem degenerate_inputs_witness:
  "length (strip ''short'') < 10 \<and>
   risk_level (fst (get_detailed_report toy_sklearn toy_detector ''now'' ''short'')) = ''Low'' \<and>
   reference_texts empty_detector = [] \<and>
   \<not> (''The   Quick (brown) fox jumps'' = [] \<or>
      length (strip ''The   Quick (brown) fox jumps'') < 10) \<and>
   fst (detect_plagiarism toy_sklearn empty_detector ''The   Quick (brown) fox jumps'') =
     min (60 * (1 / 2)) 100 \<and>
   fit_transform toy_sklearn (vectorizer cat_detector)
     (reference_texts cat_detector @ [preprocess_text ''@@@@@@@@@@@@'']) = (1, Inl ValueError) \<and>
   predict_proba toy_sklearn (svm_model cat_detector)
     [extract_features (preprocess_text ''@@@@@@@@@@@@'')] = Inl ValueError \<and>
   \<not> (''@@@@@@@@@@@@'' = [] \<or> length (strip ''@@@@@@@@@@@@'') < 10) \<and>
   fst (detect_plagiarism toy_sklearn cat_detector ''@@@@@@@@@@@@'') = 0"
proof -
  note a = degenerate_inputs [of toy_sklearn toy_detector "''now''" "''short''"]
  note b = degenerate_inputs [of toy_sklearn empty_detector "''now''"
      "''The   Quick (brown) fox jumps''"]
  note c = degenerate_inputs [of toy_sklearn cat_detector "''now''" "''@@@@@@@@@@@@''"]
  have none: "reference_texts empty_detector = []"
    by (simp add: empty_detector_def)
  have "risk_level (fst (get_detailed_report toy_sklearn toy_detector ''now'' ''short'')) = ''Low''"
    using a short_short by blast
  moreover have
    "fst (calculate_similarity_score toy_sklearn empty_detector ''The   Quick (brown) fox jumps'') = 0"
    using b none by blast
  with b fox_long have
    "fst (detect_plagiarism toy_sklearn empty_detector ''The   Quick (brown) fox jumps'') =
       min (60 * svm_probability toy_sklearn empty_detector
         (extract_features (preprocess_text ''The   Quick (brown) fox jumps''))) 100"
    by blast
  then have
    "fst (detect_plagiarism toy_sklearn empty_detector ''The   Quick (brown) fox jumps'') =
       min (60 * (1 / 2)) 100"
    unfolding fox_processed fox_features by (simp add: toy_probability)
  moreover have "fst (calculate_similarity_score toy_sklearn cat_detector ''@@@@@@@@@@@@'') = 0"
    using c signs_vectorizer by blast
  with c signs_long have
    "fst (detect_plagiarism toy_sklearn cat_detector ''@@@@@@@@@@@@'') =
       min (60 * svm_probability toy_sklearn cat_detector
         (extract_features (preprocess_text ''@@@@@@@@@@@@''))) 100"
    by blast
  moreover have "svm_probability toy_sklearn cat_detector
         (extract_features (preprocess_text ''@@@@@@@@@@@@'')) = 0"
    using c signs_classifier by blast
  ultimately show ?thesis
    using short_short none fox_long signs_vectorizer signs_classifier signs_long by simp
qed


end
